theory Spec2Isabelle
  imports Complex_Main
begin

section \<open>The outlier-removal notebook\<close>

text \<open>
  The repository is one notebook, \<open>assignment_outliers_002.ipynb\<close>, with five code cells:
  a baseline regression and four pipelines that remove the rows an outlier detector flags
  from the training set before the regression is fitted. Every cell is a straight line
  of statements over the notebook's global variables. The statements call pandas and
  scikit-learn; those routines are not part of the repository and enter the model as a
  record of functions, each of which may raise. The detectors are constructed without a
  \<open>random_state\<close>, so fitting one draws from numpy's process-wide random generator and
  advances it; the state of that generator is passed to \<open>fit_predict\<close> and returned by
  it. The numpy indexing the cells perform themselves is modelled here. Floating-point
  numbers are real numbers in the model. The import statements at the top of a cell bind
  the library's names and are left out.
\<close>

subsection \<open>Exceptions and sequencing\<close>

datatype error = DataLoadError | ConfigError | FitError | ValueError | IndexError

text \<open>A statement that raises ends the cell: the rest of the cell is not run.\<close>

definition then_do :: "'e + 'a \<Rightarrow> ('a \<Rightarrow> 'e + 'b) \<Rightarrow> 'e + 'b" where
  "then_do r f = (case r of Inl e \<Rightarrow> Inl e | Inr v \<Rightarrow> f v)"

subsection \<open>Arrays\<close>

text \<open>
  A two-dimensional float array carries its number of columns with its rows, so that an
  array with no rows still has a shape. A one-dimensional array is a list.
\<close>

record ndarray2 =
  ncols :: nat
  rows :: "real list list"

definition shape2 :: "ndarray2 \<Rightarrow> nat \<times> nat" where
  "shape2 A = (length (rows A), ncols A)"

text \<open>\<open>data[:, :-1]\<close>: every row without its last entry.\<close>

definition all_but_last_column :: "ndarray2 \<Rightarrow> ndarray2" where
  "all_but_last_column A = \<lparr>ncols = ncols A - 1, rows = map butlast (rows A)\<rparr>"

text \<open>\<open>data[:, -1]\<close>: the last entry of every row; an array without columns has none.\<close>

definition last_column :: "ndarray2 \<Rightarrow> error + real list" where
  "last_column A = (if ncols A = 0 then Inl IndexError else Inr (map last (rows A)))"

text \<open>\<open>a != v\<close>: the elementwise comparison of an array with a scalar.\<close>

definition ne_scalar :: "'a list \<Rightarrow> 'a \<Rightarrow> bool list" where
  "ne_scalar a v = map (\<lambda>x. x \<noteq> v) a"

text \<open>
  \<open>a[mask]\<close>: the entries of \<open>a\<close> at the positions where the mask is true, in their
  order. numpy compares the length of a boolean index with the length of the array only
  when the index is not empty: an empty mask selects nothing from any array, and a
  non-empty mask of another length than the array is an IndexError.
\<close>

definition take_mask :: "'a list \<Rightarrow> bool list \<Rightarrow> 'a list" where
  "take_mask a m = map fst (filter snd (zip a m))"

definition boolean_index :: "'a list \<Rightarrow> bool list \<Rightarrow> error + 'a list" where
  "boolean_index a m =
     (if m = [] \<or> length m = length a then Inr (take_mask a m) else Inl IndexError)"

text \<open>\<open>A[mask, :]\<close>: the same selection on the rows, with every column kept.\<close>

definition boolean_index_rows :: "ndarray2 \<Rightarrow> bool list \<Rightarrow> error + ndarray2" where
  "boolean_index_rows A m =
     then_do (boolean_index (rows A) m) (\<lambda>rs. Inr (A\<lparr>rows := rs\<rparr>))"

subsection \<open>The libraries\<close>

text \<open>
  The four detectors the notebook constructs, with the argument each constructor is
  given: \<open>contamination\<close> for the isolation forest and the elliptic envelope, \<open>nu\<close>
  for the one-class SVM, none for the local outlier factor.
\<close>

datatype estimator =
    IsolationForest real
  | EllipticEnvelope real
  | LocalOutlierFactor
  | OneClassSVM real

fun outlier_fraction :: "estimator \<Rightarrow> real option" where
  "outlier_fraction (IsolationForest contamination) = Some contamination"
| "outlier_fraction (EllipticEnvelope contamination) = Some contamination"
| "outlier_fraction LocalOutlierFactor = None"
| "outlier_fraction (OneClassSVM nu) = Some nu"

text \<open>
  The pandas and scikit-learn routines the cells call. \<open>read_csv\<close> takes the URL and the
  \<open>header\<close> argument (\<open>None\<close> for \<open>header=None\<close>); \<open>train_test_split\<close> takes the
  features, the targets, \<open>test_size\<close> and \<open>random_state\<close> and returns
  \<open>(X_train, X_test, y_train, y_test)\<close>, drawing from a generator of its own that it
  seeds with \<open>random_state\<close>; \<open>fit_predict\<close> takes the detector, the features and
  the state of the process-wide generator and returns the labels with the state it
  leaves the generator in; \<open>'m\<close> is the fitted regression model.
\<close>

type_synonym rng_state = nat


record 'm library =
  read_csv :: "string \<Rightarrow> nat option \<Rightarrow> error + ndarray2"
  train_test_split ::
    "ndarray2 \<Rightarrow> real list \<Rightarrow> real \<Rightarrow> nat \<Rightarrow> error + (ndarray2 \<times> ndarray2 \<times> real list \<times> real list)"
  fit_predict :: "estimator \<Rightarrow> ndarray2 \<Rightarrow> rng_state \<Rightarrow> error + (int list \<times> rng_state)"
  LinearRegression_fit :: "ndarray2 \<Rightarrow> real list \<Rightarrow> error + 'm"
  predict :: "'m \<Rightarrow> ndarray2 \<Rightarrow> error + real list"

text \<open>
  Modelled from the spec: \<open>sklearn.metrics.mean_absolute_error\<close> is library code outside
  the repository. The spec defines the metric as the average absolute difference between
  predicted and true regression targets. The average of no values and the difference of
  vectors of different lengths are not defined: both are a ValueError here.
\<close>

definition mean_absolute_error :: "real list \<Rightarrow> real list \<Rightarrow> error + real" where
  "mean_absolute_error y_true y_pred =
     (if length y_true \<noteq> length y_pred \<or> y_true = [] then Inl ValueError
      else Inr (sum_list (map2 (\<lambda>t p. \<bar>p - t\<bar>) y_true y_pred) / real (length y_true)))"

subsection \<open>The notebook's variables\<close>

text \<open>
  What a cell prints: the two shapes of \<open>print(X_train.shape, y_train.shape)\<close> and the
  number of \<open>print('MAE: %.3f' % mae)\<close> (the number itself, not its three-digit text).
\<close>

datatype printed = Shapes "nat \<times> nat" nat | MAE real

text \<open>
  The global variables the cells assign, each prefixed with \<open>var_\<close>, the output area
  of the running cell, and the state of numpy's process-wide random generator, which the
  kernel keeps from one cell to the next as it keeps the variables. \<open>yhat\<close> holds the
  detector's integer labels first and the regression's float predictions later.
\<close>

record 'm namespace =
  var_url :: string
  var_df :: ndarray2
  var_data :: ndarray2
  var_X :: ndarray2
  var_y :: "real list"
  var_X_train :: ndarray2
  var_X_test :: ndarray2
  var_y_train :: "real list"
  var_y_test :: "real list"
  var_iso :: estimator
  var_ee :: estimator
  var_lof :: estimator
  var_yhat :: "int list + real list"
  var_mask :: "bool list"
  var_model :: 'm
  var_mae :: real
  stdout :: "printed list"
  numpy_rng :: rng_state

datatype detector_var = Iso | Ee | Lof

fun assign_detector :: "detector_var \<Rightarrow> estimator \<Rightarrow> 'm namespace \<Rightarrow> 'm namespace" where
  "assign_detector Iso est s = s\<lparr>var_iso := est\<rparr>"
| "assign_detector Ee est s = s\<lparr>var_ee := est\<rparr>"
| "assign_detector Lof est s = s\<lparr>var_lof := est\<rparr>"

fun detector :: "detector_var \<Rightarrow> 'm namespace \<Rightarrow> estimator" where
  "detector Iso s = var_iso s"
| "detector Ee s = var_ee s"
| "detector Lof s = var_lof s"

fun floats :: "int list + real list \<Rightarrow> real list" where
  "floats (Inl labels) = map real_of_int labels"
| "floats (Inr values) = values"

fun ne_minus_one :: "int list + real list \<Rightarrow> bool list" where
  "ne_minus_one (Inl labels) = ne_scalar labels (- 1)"
| "ne_minus_one (Inr values) = ne_scalar values (- 1)"

subsection \<open>The statements of the cells\<close>

definition housing_url :: string where
  "housing_url = ''https://raw.githubusercontent.com/jbrownlee/Datasets/master/housing.csv''"

text \<open>
  \<^verbatim>\<open>
  url = '...housing.csv'
  df = read_csv(url, header=None)
  data = df.values
  X, y = data[:, :-1], data[:, -1]
  \<close>
\<close>

definition load_dataset :: "'m library \<Rightarrow> 'm namespace \<Rightarrow> error + 'm namespace" where
  "load_dataset lib s =
     (let s1 = s\<lparr>var_url := housing_url\<rparr> in
      then_do (read_csv lib (var_url s1) None) (\<lambda>frame.
        let s2 = s1\<lparr>var_df := frame\<rparr>;
            s3 = s2\<lparr>var_data := var_df s2\<rparr>;
            features = all_but_last_column (var_data s3)
        in then_do (last_column (var_data s3)) (\<lambda>target.
             Inr (s3\<lparr>var_X := features, var_y := target\<rparr>))))"

text \<open>
  \<^verbatim>\<open>
  X_train, X_test, y_train, y_test = train_test_split(X, y, test_size=0.33, random_state=1)
  \<close>
\<close>

definition split_dataset :: "'m library \<Rightarrow> 'm namespace \<Rightarrow> error + 'm namespace" where
  "split_dataset lib s =
     then_do (train_test_split lib (var_X s) (var_y s) (33 / 100) 1) (\<lambda>(a, b, c, d).
       Inr (s\<lparr>var_X_train := a, var_X_test := b, var_y_train := c, var_y_test := d\<rparr>))"

text \<open>\<^verbatim>\<open>print(X_train.shape, y_train.shape)\<close>\<close>

definition print_shapes :: "'m namespace \<Rightarrow> error + 'm namespace" where
  "print_shapes s =
     Inr (s\<lparr>stdout := stdout s @ [Shapes (shape2 (var_X_train s)) (length (var_y_train s))]\<rparr>)"

text \<open>
  \<^verbatim>\<open>
  iso = IsolationForest(contamination=0.1)
  yhat = iso.fit_predict(X_train)
  \<close>
  with the detector and the variable that holds it as parameters. The detector has no
  \<open>random_state\<close>: fitting it reads the process-wide generator and leaves it advanced.
\<close>

definition identify_outliers ::
  "'m library \<Rightarrow> detector_var \<Rightarrow> estimator \<Rightarrow> 'm namespace \<Rightarrow> error + 'm namespace" where
  "identify_outliers lib dv est s =
     (let s1 = assign_detector dv est s in
      then_do (fit_predict lib (detector dv s1) (var_X_train s1) (numpy_rng s1)) (\<lambda>(labels, g).
        Inr (s1\<lparr>var_yhat := Inl labels, numpy_rng := g\<rparr>)))"

text \<open>
  \<^verbatim>\<open>
  mask = yhat != -1
  X_train, y_train = X_train[mask, :], y_train[mask]
  \<close>
\<close>

definition select_inliers :: "'m namespace \<Rightarrow> error + 'm namespace" where
  "select_inliers s =
     (let s1 = s\<lparr>var_mask := ne_minus_one (var_yhat s)\<rparr> in
      then_do (boolean_index_rows (var_X_train s1) (var_mask s1)) (\<lambda>kept_X.
        then_do (boolean_index (var_y_train s1) (var_mask s1)) (\<lambda>kept_y.
          Inr (s1\<lparr>var_X_train := kept_X, var_y_train := kept_y\<rparr>))))"

text \<open>The outlier-filtering stage of a pipeline: the detector's labels, then the selection.\<close>

definition outlier_filter_stage ::
  "'m library \<Rightarrow> detector_var \<Rightarrow> estimator \<Rightarrow> 'm namespace \<Rightarrow> error + 'm namespace" where
  "outlier_filter_stage lib dv est s = then_do (identify_outliers lib dv est s) select_inliers"

text \<open>
  \<^verbatim>\<open>
  model = LinearRegression()
  model.fit(X_train, y_train)
  \<close>
\<close>

definition fit_model :: "'m library \<Rightarrow> 'm namespace \<Rightarrow> error + 'm namespace" where
  "fit_model lib s =
     then_do (LinearRegression_fit lib (var_X_train s) (var_y_train s)) (\<lambda>fitted.
       Inr (s\<lparr>var_model := fitted\<rparr>))"

text \<open>
  \<^verbatim>\<open>
  yhat = model.predict(X_test)
  mae = mean_absolute_error(y_test, yhat)
  print('MAE: %.3f' % mae)
  \<close>
\<close>

definition evaluate_model :: "'m library \<Rightarrow> 'm namespace \<Rightarrow> error + 'm namespace" where
  "evaluate_model lib s =
     then_do (predict lib (var_model s) (var_X_test s)) (\<lambda>predictions.
       let s1 = s\<lparr>var_yhat := Inr predictions\<rparr> in
       then_do (mean_absolute_error (var_y_test s1) (floats (var_yhat s1))) (\<lambda>m.
         let s2 = s1\<lparr>var_mae := m\<rparr> in
         Inr (s2\<lparr>stdout := stdout s2 @ [MAE (var_mae s2)]\<rparr>)))"

subsection \<open>The cells\<close>

text \<open>
  A cell starts with an empty output area and runs its statements in order. A cell that
  raises is reported by its exception alone.
\<close>

definition baseline_cell :: "'m library \<Rightarrow> 'm namespace \<Rightarrow> error + 'm namespace" where
  "baseline_cell lib s =
     then_do (load_dataset lib (s\<lparr>stdout := []\<rparr>)) (\<lambda>s.
     then_do (split_dataset lib s) (\<lambda>s.
     then_do (fit_model lib s) (\<lambda>s.
     evaluate_model lib s)))"

definition outlier_cell ::
  "'m library \<Rightarrow> detector_var \<Rightarrow> estimator \<Rightarrow> 'm namespace \<Rightarrow> error + 'm namespace" where
  "outlier_cell lib dv est s =
     then_do (load_dataset lib (s\<lparr>stdout := []\<rparr>)) (\<lambda>s.
     then_do (split_dataset lib s) (\<lambda>s.
     then_do (print_shapes s) (\<lambda>s.
     then_do (outlier_filter_stage lib dv est s) (\<lambda>s.
     then_do (print_shapes s) (\<lambda>s.
     then_do (fit_model lib s) (\<lambda>s.
     evaluate_model lib s))))))"

definition isolation_forest_cell :: "'m library \<Rightarrow> 'm namespace \<Rightarrow> error + 'm namespace" where
  "isolation_forest_cell lib = outlier_cell lib Iso (IsolationForest (1 / 10))"

definition elliptic_envelope_cell :: "'m library \<Rightarrow> 'm namespace \<Rightarrow> error + 'm namespace" where
  "elliptic_envelope_cell lib = outlier_cell lib Ee (EllipticEnvelope (1 / 100))"

definition local_outlier_factor_cell :: "'m library \<Rightarrow> 'm namespace \<Rightarrow> error + 'm namespace" where
  "local_outlier_factor_cell lib = outlier_cell lib Lof LocalOutlierFactor"

definition one_class_svm_cell :: "'m library \<Rightarrow> 'm namespace \<Rightarrow> error + 'm namespace" where
  "one_class_svm_cell lib = outlier_cell lib Ee (OneClassSVM (1 / 100))"

subsection \<open>What the claims speak about\<close>

text \<open>
  The positions of the rows a label vector keeps: those whose label is not \<open>-1\<close>, in
  increasing order.
\<close>

definition inlier_positions :: "int list \<Rightarrow> nat list" where
  "inlier_positions labels = filter (\<lambda>i. labels ! i \<noteq> - 1) [0..<length labels]"

text \<open>
  The namespace the outlier-filtering stage leaves when the detector has returned
  \<open>labels\<close> and left the generator in state \<open>g\<close>.
\<close>

definition kept ::
  "'m namespace \<Rightarrow> int list \<Rightarrow> rng_state \<Rightarrow> detector_var \<Rightarrow> estimator \<Rightarrow> 'm namespace" where
  "kept s labels g dv est =
     (assign_detector dv est s)
       \<lparr>var_yhat := Inl labels,
        numpy_rng := g,
        var_mask := ne_scalar labels (- 1),
        var_X_train :=
          (var_X_train s)\<lparr>rows := take_mask (rows (var_X_train s)) (ne_scalar labels (- 1))\<rparr>,
        var_y_train := take_mask (var_y_train s) (ne_scalar labels (- 1))\<rparr>"

text \<open>
  What a pipeline computes: the lines it prints, the training set it fits the regression
  on, the test set, the fitted model and the error.
\<close>

definition results ::
  "'m namespace \<Rightarrow> printed list \<times> ndarray2 \<times> real list \<times> ndarray2 \<times> real list \<times> 'm \<times> real" where
  "results s =
     (stdout s, var_X_train s, var_y_train s, var_X_test s, var_y_test s, var_model s, var_mae s)"

text \<open>
  Everything a pipeline that keeps its detector in the variable \<open>dv\<close> assigns: all the
  variables but the two other detector variables, with the output area and the state of
  the generator.
\<close>

definition assigned ::
  "detector_var \<Rightarrow> 'm namespace \<Rightarrow>
     (string \<times> ndarray2 \<times> ndarray2 \<times> ndarray2 \<times> real list)
     \<times> (ndarray2 \<times> ndarray2 \<times> real list \<times> real list)
     \<times> (estimator \<times> (int list + real list) \<times> bool list \<times> 'm \<times> real)
     \<times> printed list \<times> rng_state" where
  "assigned dv s =
     ((var_url s, var_df s, var_data s, var_X s, var_y s),
      (var_X_train s, var_X_test s, var_y_train s, var_y_test s),
      (detector dv s, var_yhat s, var_mask s, var_model s, var_mae s),
      stdout s, numpy_rng s)"

subsection \<open>A small library and namespace to run the cells on\<close>

text \<open>
  A stand-in for the libraries on which the cells can be evaluated: a file of four rows
  and three columns, a split that holds out the last row, a detector that flags the rows
  whose entries sum to more than 100, looks at no constructor argument and leaves the
  generator alone, and a regression that predicts the mean of the training targets.
\<close>

definition demo_library :: "real library" where
  "demo_library =
     \<lparr>read_csv = (\<lambda>u h.
        Inr \<lparr>ncols = 3, rows = [[1, 2, 10], [2, 1, 20], [50, 60, 30], [3, 4, 40]]\<rparr>),
      train_test_split = (\<lambda>A t ts rs.
        let k = length (rows A) - 1
        in Inr (A\<lparr>rows := take k (rows A)\<rparr>, A\<lparr>rows := drop k (rows A)\<rparr>, take k t, drop k t)),
      fit_predict = (\<lambda>est A g.
        Inr (map (\<lambda>r. if 100 < sum_list r then - 1 else 1) (rows A), g)),
      LinearRegression_fit = (\<lambda>A t. Inr (sum_list t / real (length t))),
      predict = (\<lambda>m A. Inr (map (\<lambda>r. m) (rows A)))\<rparr>"

text \<open>The same library with a detector that checks its argument before it fits.\<close>

definition strict_library :: "real library" where
  "strict_library =
     demo_library\<lparr>fit_predict := (\<lambda>est A g.
        case outlier_fraction est of
          None \<Rightarrow> fit_predict demo_library est A g
        | Some p \<Rightarrow>
            if 0 < p \<and> p \<le> 1 / 2 then fit_predict demo_library est A g
            else Inl ConfigError)\<rparr>"

text \<open>
  The same library with a randomised detector: it draws once from the generator, which
  advances it, and flags the rows whose entries sum to more than 100 only when the state
  it found was even.
\<close>

definition random_library :: "real library" where
  "random_library =
     demo_library\<lparr>fit_predict := (\<lambda>est A g.
        Inr (map (\<lambda>r. if even g \<and> 100 < sum_list r then - 1 else 1) (rows A), Suc g))\<rparr>"

text \<open>A namespace as a cell may find it: a training set of three rows, a test set of one.\<close>

definition demo_namespace :: "real namespace" where
  "demo_namespace =
     \<lparr>var_url = [], var_df = \<lparr>ncols = 0, rows = []\<rparr>, var_data = \<lparr>ncols = 0, rows = []\<rparr>,
      var_X = \<lparr>ncols = 0, rows = []\<rparr>, var_y = [],
      var_X_train = \<lparr>ncols = 2, rows = [[1, 2], [2, 1], [50, 60]]\<rparr>,
      var_X_test = \<lparr>ncols = 2, rows = [[3, 4]]\<rparr>,
      var_y_train = [10, 20, 30], var_y_test = [40],
      var_iso = LocalOutlierFactor, var_ee = LocalOutlierFactor, var_lof = LocalOutlierFactor,
      var_yhat = Inr [], var_mask = [], var_model = 0, var_mae = 0, stdout = [],
      numpy_rng = 0\<rparr>"

text \<open>The namespace the isolation forest cell leaves when it is run on them.\<close>

definition demo_final_namespace :: "real namespace" where
  "demo_final_namespace =
     \<lparr>var_url = housing_url,
      var_df = \<lparr>ncols = 3, rows = [[1, 2, 10], [2, 1, 20], [50, 60, 30], [3, 4, 40]]\<rparr>,
      var_data = \<lparr>ncols = 3, rows = [[1, 2, 10], [2, 1, 20], [50, 60, 30], [3, 4, 40]]\<rparr>,
      var_X = \<lparr>ncols = 2, rows = [[1, 2], [2, 1], [50, 60], [3, 4]]\<rparr>,
      var_y = [10, 20, 30, 40],
      var_X_train = \<lparr>ncols = 2, rows = [[1, 2], [2, 1]]\<rparr>,
      var_X_test = \<lparr>ncols = 2, rows = [[3, 4]]\<rparr>,
      var_y_train = [10, 20], var_y_test = [40],
      var_iso = IsolationForest (1 / 10), var_ee = LocalOutlierFactor,
      var_lof = LocalOutlierFactor,
      var_yhat = Inr [15], var_mask = [True, True, False], var_model = 15, var_mae = 25,
      stdout = [Shapes (3, 2) 3, Shapes (2, 2) 2, MAE 25],
      numpy_rng = 0\<rparr>"

section \<open>Selecting by a mask\<close>

lemma take_mask_Nil: "take_mask [] m = []"
  by (simp add: take_mask_def)

lemma take_mask_Cons:
  "take_mask (x # a) (b # m) = (if b then x # take_mask a m else take_mask a m)"
  by (simp add: take_mask_def)

text \<open>Selecting by a mask is reading the array at the mask's true positions, in order.\<close>

lemma take_mask_nth:
  "length m = length a \<Longrightarrow> take_mask a m = map ((!) a) (filter ((!) m) [0..<length a])"
proof (induction a arbitrary: m)
  case Nil
  then show ?case by (simp add: take_mask_Nil)
next
  case (Cons x a)
  then obtain b m' where m: "m = b # m'" and len: "length m' = length a"
    by (cases m) auto
  have upt: "[0..<length (x # a)] = 0 # map Suc [0..<length a]"
    by (simp add: upt_conv_Cons map_Suc_upt del: upt_Suc)
  have shift: "map ((!) (x # a)) (filter ((!) (c # m')) (map Suc [0..<length a]))
        = map ((!) a) (filter ((!) m') [0..<length a])" for c
    by (simp add: filter_map comp_def)
  show ?case
    unfolding m upt by (simp add: take_mask_Cons shift Cons.IH [OF len])
qed

lemma length_ne_scalar [simp]: "length (ne_scalar a v) = length a"
  by (simp add: ne_scalar_def)

lemma ne_scalar_nth: "i < length l \<Longrightarrow> ne_scalar l v ! i = (l ! i \<noteq> v)"
  by (simp add: ne_scalar_def)

lemma filter_ne_scalar:
  "filter ((!) (ne_scalar l v)) [0..<length l] = filter (\<lambda>i. l ! i \<noteq> v) [0..<length l]"
  by (rule filter_cong) (simp_all add: ne_scalar_nth)

text \<open>Every entry is either kept or equal to the scalar.\<close>

lemma length_take_mask_ne:
  "length a = length l \<Longrightarrow> length (take_mask a (ne_scalar l v)) + count_list l v = length l"
proof (induction a l rule: list_induct2)
  case Nil
  then show ?case by (simp add: take_mask_Nil ne_scalar_def)
next
  case (Cons x xs y ys)
  then show ?case by (simp add: take_mask_Cons ne_scalar_def)
qed

lemma sorted_inlier_positions: "sorted_wrt (<) (inlier_positions labels)"
  unfolding inlier_positions_def by (simp add: sorted_wrt_filter)

section \<open>The outlier-filtering stage\<close>

lemma take_mask_no_mask [simp]: "take_mask a [] = []"
  by (simp add: take_mask_def)

lemma ne_scalar_empty [simp]: "ne_scalar a v = [] \<longleftrightarrow> a = []"
  by (simp add: ne_scalar_def)

lemma detector_assign [simp]: "detector dv (assign_detector dv est s) = est"
  by (cases dv) simp_all

lemma assign_detector_frame [simp]:
  "var_X_train (assign_detector dv est s) = var_X_train s"
  "var_y_train (assign_detector dv est s) = var_y_train s"
  "var_X_test (assign_detector dv est s) = var_X_test s"
  "var_y_test (assign_detector dv est s) = var_y_test s"
  "var_X (assign_detector dv est s) = var_X s"
  "var_y (assign_detector dv est s) = var_y s"
  "var_data (assign_detector dv est s) = var_data s"
  "stdout (assign_detector dv est s) = stdout s"
  "numpy_rng (assign_detector dv est s) = numpy_rng s"
  by (cases dv; simp)+

text \<open>
  The stage in one equation: it raises what \<open>fit_predict\<close> raises, it raises numpy's
  IndexError when the labels are not empty and do not match the training rows, and it
  selects otherwise.
\<close>

lemma outlier_filter_stage_cases:
  "outlier_filter_stage lib dv est s =
     (case fit_predict lib est (var_X_train s) (numpy_rng s) of
        Inl e \<Rightarrow> Inl e
      | Inr (labels, g) \<Rightarrow>
          if (labels = [] \<or> length labels = length (rows (var_X_train s)))
             \<and> (labels = [] \<or> length labels = length (var_y_train s))
          then Inr (kept s labels g dv est) else Inl IndexError)"
  by (cases dv)
     (auto simp add: outlier_filter_stage_def identify_outliers_def select_inliers_def
        boolean_index_rows_def boolean_index_def then_do_def kept_def Let_def
        split: sum.splits prod.splits)

text \<open>
  C1, as the spec states it: a detector argument outside \<open>(0, 0.5]\<close> makes the stage
  raise a configuration error before fitting. The cells contain no such check. With a
  detector that does not look at its argument, the stage run with \<open>nu = 0.7\<close> raises
  nothing.
\<close>

theorem stage_accepts_fraction_outside_interval:
  "outlier_fraction (OneClassSVM (7 / 10)) = Some (7 / 10)
   \<and> \<not> (0 < (7 / 10 :: real) \<and> (7 / 10 :: real) \<le> 1 / 2)
   \<and> \<not> isl (outlier_filter_stage demo_library Ee (OneClassSVM (7 / 10)) demo_namespace)"
  by (simp add: outlier_filter_stage_cases demo_library_def demo_namespace_def)

text \<open>
  C1, amended: the stage does not check the detector's argument itself. Whatever the
  argument is, the stage ends in a configuration error exactly when the library's
  \<open>fit_predict\<close> raises one on the training features; every exception of
  \<open>fit_predict\<close> is the stage's outcome, with no row filtered; and when \<open>fit_predict\<close>
  returns labels the outcome is that of the selection on them: the filtered training
  set, or numpy's IndexError for a non-empty label vector of another length than the
  training rows or targets.
\<close>

theorem stage_rejects_only_with_the_library:
  "(outlier_filter_stage lib dv est s = Inl ConfigError
      \<longleftrightarrow> fit_predict lib est (var_X_train s) (numpy_rng s) = Inl ConfigError)
   \<and> (\<forall>e. fit_predict lib est (var_X_train s) (numpy_rng s) = Inl e
          \<longrightarrow> outlier_filter_stage lib dv est s = Inl e)
   \<and> (\<forall>labels g. fit_predict lib est (var_X_train s) (numpy_rng s) = Inr (labels, g)
          \<longrightarrow> outlier_filter_stage lib dv est s =
               (if (labels = [] \<or> length labels = length (rows (var_X_train s)))
                   \<and> (labels = [] \<or> length labels = length (var_y_train s))
                then Inr (kept s labels g dv est) else Inl IndexError))"
  by (auto simp add: outlier_filter_stage_cases split: sum.splits prod.splits if_splits)

theorem stage_rejects_only_with_the_library_witness:
  "outlier_filter_stage strict_library Iso (IsolationForest (7 / 10)) demo_namespace
     = Inl ConfigError
   \<and> outlier_filter_stage demo_library Iso (IsolationForest (7 / 10)) demo_namespace
     = Inr (kept demo_namespace [1, 1, - 1] 0 Iso (IsolationForest (7 / 10)))
   \<and> outlier_filter_stage demo_library Iso (IsolationForest (7 / 10)) demo_namespace
     \<noteq> Inl ConfigError"
proof -
  have a: "fit_predict strict_library (IsolationForest (7 / 10)) (var_X_train demo_namespace)
             (numpy_rng demo_namespace) = Inl ConfigError"
    by (simp add: strict_library_def)
  have b: "fit_predict demo_library (IsolationForest (7 / 10)) (var_X_train demo_namespace)
             (numpy_rng demo_namespace) = Inr ([1, 1, - 1], 0)"
    by (simp add: demo_library_def demo_namespace_def)
  have c: "length (rows (var_X_train demo_namespace)) = 3"
      "length (var_y_train demo_namespace) = 3"
    by (simp_all add: demo_namespace_def)
  show ?thesis
    using stage_rejects_only_with_the_library [of strict_library Iso "IsolationForest (7 / 10)"
        demo_namespace]
      stage_rejects_only_with_the_library [of demo_library Iso "IsolationForest (7 / 10)"
        demo_namespace]
    by (simp add: a b c)
qed

text \<open>
  C2: when the detector returns one label for each training row, and the targets are as
  many as the rows, the stage succeeds, and the filtered features and the filtered
  targets are the original ones read at the same increasing list of positions, those of
  the rows not labelled \<open>-1\<close>. Row \<open>i\<close> of the filtered features and entry \<open>i\<close> of the
  filtered targets therefore come from the same original row, and the kept rows are in
  their original order.
\<close>

theorem filtered_rows_stay_aligned:
  assumes "fit_predict lib est (var_X_train s) (numpy_rng s) = Inr (labels, g)"
    and "length labels = length (rows (var_X_train s))"
    and "length (var_y_train s) = length (rows (var_X_train s))"
  shows "\<exists>s'. outlier_filter_stage lib dv est s = Inr s'
           \<and> rows (var_X_train s') = map ((!) (rows (var_X_train s))) (inlier_positions labels)
           \<and> var_y_train s' = map ((!) (var_y_train s)) (inlier_positions labels)
           \<and> length (rows (var_X_train s')) = length (var_y_train s')
           \<and> sorted_wrt (<) (inlier_positions labels)"
proof -
  let ?m = "ne_scalar labels (- 1)"
  have run: "outlier_filter_stage lib dv est s = Inr (kept s labels g dv est)"
    using assms by (simp add: outlier_filter_stage_cases)
  have idx: "filter ((!) ?m) [0..<length labels] = inlier_positions labels"
    by (simp add: filter_ne_scalar inlier_positions_def)
  have X: "rows (var_X_train (kept s labels g dv est))
             = map ((!) (rows (var_X_train s))) (inlier_positions labels)"
    using assms(2) idx by (simp add: kept_def take_mask_nth)
  have Y: "var_y_train (kept s labels g dv est)
             = map ((!) (var_y_train s)) (inlier_positions labels)"
    using assms(2,3) idx by (simp add: kept_def take_mask_nth)
  show ?thesis
    using run X Y by (simp add: sorted_inlier_positions)
qed

theorem filtered_rows_stay_aligned_witness:
  "\<exists>s'. outlier_filter_stage demo_library Iso (IsolationForest (1 / 10)) demo_namespace = Inr s'
      \<and> rows (var_X_train s') = [[1, 2], [2, 1]]
      \<and> var_y_train s' = [10, 20]"
proof -
  have a: "fit_predict demo_library (IsolationForest (1 / 10)) (var_X_train demo_namespace)
             (numpy_rng demo_namespace) = Inr ([1, 1, - 1], 0)"
    by (simp add: demo_library_def demo_namespace_def)
  have b: "length [1, 1, - 1 :: int] = length (rows (var_X_train demo_namespace))"
    by (simp add: demo_namespace_def)
  have c: "length (var_y_train demo_namespace) = length (rows (var_X_train demo_namespace))"
    by (simp add: demo_namespace_def)
  have i: "inlier_positions [1, 1, - 1] = [0, 1]"
    by (simp add: inlier_positions_def upt_rec)
  show ?thesis
    using filtered_rows_stay_aligned [OF a b c, of Iso]
    by (auto simp add: i demo_namespace_def)
qed

text \<open>
  C3: under the same conditions the filtered features have as many rows as the training
  set had, minus the number of labels equal to \<open>-1\<close>, and so have the filtered targets.
\<close>

theorem filtered_row_count:
  assumes "fit_predict lib est (var_X_train s) (numpy_rng s) = Inr (labels, g)"
    and "length labels = length (rows (var_X_train s))"
    and "length (var_y_train s) = length (rows (var_X_train s))"
  shows "\<exists>s'. outlier_filter_stage lib dv est s = Inr s'
           \<and> length (rows (var_X_train s'))
               = length (rows (var_X_train s)) - count_list labels (- 1)
           \<and> length (var_y_train s') = length (var_y_train s) - count_list labels (- 1)"
proof -
  have run: "outlier_filter_stage lib dv est s = Inr (kept s labels g dv est)"
    using assms by (simp add: outlier_filter_stage_cases)
  have X: "length (take_mask (rows (var_X_train s)) (ne_scalar labels (- 1)))
             + count_list labels (- 1) = length labels"
    using assms(2) by (simp add: length_take_mask_ne)
  have Y: "length (take_mask (var_y_train s) (ne_scalar labels (- 1)))
             + count_list labels (- 1) = length labels"
    using assms(2,3) by (simp add: length_take_mask_ne)
  have X': "length (rows (var_X_train (kept s labels g dv est)))
              = length (rows (var_X_train s)) - count_list labels (- 1)"
    using X assms(2) by (simp add: kept_def)
  have Y': "length (var_y_train (kept s labels g dv est))
              = length (var_y_train s) - count_list labels (- 1)"
    using Y assms(2,3) by (simp add: kept_def)
  show ?thesis
    using run X' Y' by simp
qed

theorem filtered_row_count_witness:
  "\<exists>s'. outlier_filter_stage demo_library Iso (IsolationForest (1 / 10)) demo_namespace = Inr s'
      \<and> length (rows (var_X_train s')) = 3 - 1
      \<and> length (var_y_train s') = 3 - 1"
proof -
  have a: "fit_predict demo_library (IsolationForest (1 / 10)) (var_X_train demo_namespace)
             (numpy_rng demo_namespace) = Inr ([1, 1, - 1], 0)"
    by (simp add: demo_library_def demo_namespace_def)
  have b: "length [1, 1, - 1 :: int] = length (rows (var_X_train demo_namespace))"
    by (simp add: demo_namespace_def)
  have c: "length (var_y_train demo_namespace) = length (rows (var_X_train demo_namespace))"
    by (simp add: demo_namespace_def)
  show ?thesis
    using filtered_row_count [OF a b c, of Iso]
    by (auto simp add: demo_namespace_def)
qed

section \<open>The error metric\<close>

lemma sum_list_abs_nonneg: "0 \<le> sum_list (map2 (\<lambda>t p. \<bar>p - t\<bar>) (ts :: real list) ps)"
  by (rule sum_list_nonneg) auto

lemma mean_absolute_error_Inr: "mean_absolute_error y_true y_pred = Inr m \<Longrightarrow> 0 \<le> m"
  by (auto simp add: mean_absolute_error_def sum_list_abs_nonneg split: if_splits)

section \<open>The statements, one at a time\<close>

lemma then_do_Inr: "then_do r f = Inr y \<longleftrightarrow> (\<exists>x. r = Inr x \<and> f x = Inr y)"
  by (cases r) (simp_all add: then_do_def)

lemma load_dataset_Inr:
  assumes "load_dataset lib s = Inr s'"
  shows "\<exists>d. read_csv lib housing_url None = Inr d \<and> 0 < ncols d
           \<and> s' = s\<lparr>var_url := housing_url, var_df := d, var_data := d,
                    var_X := all_but_last_column d, var_y := map last (rows d)\<rparr>"
  using assms
  by (auto simp add: load_dataset_def last_column_def then_do_def Let_def
      split: sum.splits if_splits)

lemma split_dataset_Inr:
  assumes "split_dataset lib s = Inr s'"
  shows "\<exists>a b c d. train_test_split lib (var_X s) (var_y s) (33 / 100) 1 = Inr (a, b, c, d)
           \<and> s' = s\<lparr>var_X_train := a, var_X_test := b, var_y_train := c, var_y_test := d\<rparr>"
  using assms
  by (auto simp add: split_dataset_def then_do_def split: sum.splits prod.splits)

lemma outlier_filter_stage_Inr:
  assumes "outlier_filter_stage lib dv est s = Inr s'"
  shows "\<exists>labels g. fit_predict lib est (var_X_train s) (numpy_rng s) = Inr (labels, g)
           \<and> (labels = [] \<or> length labels = length (rows (var_X_train s)))
           \<and> (labels = [] \<or> length labels = length (var_y_train s))
           \<and> s' = kept s labels g dv est"
  using assms
  by (auto simp add: outlier_filter_stage_cases split: sum.splits prod.splits if_splits)

lemma fit_model_Inr:
  assumes "fit_model lib s = Inr s'"
  shows "LinearRegression_fit lib (var_X_train s) (var_y_train s) = Inr (var_model s')
         \<and> s' = s\<lparr>var_model := var_model s'\<rparr>"
  using assms
  by (auto simp add: fit_model_def then_do_def split: sum.splits)

lemma evaluate_model_Inr:
  assumes "evaluate_model lib s = Inr s'"
  shows "\<exists>p. predict lib (var_model s) (var_X_test s) = Inr p
           \<and> mean_absolute_error (var_y_test s) p = Inr (var_mae s')
           \<and> s' = s\<lparr>var_yhat := Inr p, var_mae := var_mae s',
                    stdout := stdout s @ [MAE (var_mae s')]\<rparr>"
  using assms
  by (auto simp add: evaluate_model_def then_do_def Let_def split: sum.splits)

lemma kept_frame [simp]:
  "var_X_test (kept s labels g dv est) = var_X_test s"
  "var_y_test (kept s labels g dv est) = var_y_test s"
  "var_X (kept s labels g dv est) = var_X s"
  "var_y (kept s labels g dv est) = var_y s"
  "var_data (kept s labels g dv est) = var_data s"
  "var_mask (kept s labels g dv est) = ne_scalar labels (- 1)"
  "numpy_rng (kept s labels g dv est) = g"
  by (simp_all add: kept_def)

lemma kept_selection:
  assumes "labels = [] \<or> length labels = length (rows (var_X_train s))"
    and "labels = [] \<or> length labels = length (var_y_train s)"
  shows "boolean_index_rows (var_X_train s) (ne_scalar labels (- 1))
           = Inr (var_X_train (kept s labels g dv est))"
    and "boolean_index (var_y_train s) (ne_scalar labels (- 1))
           = Inr (var_y_train (kept s labels g dv est))"
  using assms by (auto simp add: boolean_index_rows_def boolean_index_def then_do_def kept_def)

text \<open>Putting back the last entry of every row gives the rows again.\<close>

lemma rejoin_columns:
  assumes "\<forall>r \<in> set rs. r \<noteq> []"
  shows "map2 (\<lambda>r t. r @ [t]) (map butlast rs) (map last rs) = rs"
  using assms by (induction rs) simp_all

text \<open>The isolation forest cell on the small library, evaluated.\<close>

lemma isolation_forest_cell_demo:
  "outlier_cell demo_library Iso (IsolationForest (1 / 10)) demo_namespace
     = Inr demo_final_namespace"
  by (simp add: outlier_cell_def load_dataset_def split_dataset_def print_shapes_def
      outlier_filter_stage_cases kept_def fit_model_def evaluate_model_def last_column_def
      all_but_last_column_def shape2_def take_mask_def ne_scalar_def
      mean_absolute_error_def then_do_def demo_library_def demo_namespace_def
      demo_final_namespace_def)

section \<open>Loading and evaluating\<close>

text \<open>
  C4: the mean absolute error is never negative. Whenever the metric is computed its
  value is at least zero; it is computed for every pair of non-empty vectors of equal
  length; and the \<open>mae\<close> a cell stores after evaluating the model is at least zero.
\<close>

theorem mae_is_nonnegative:
  "(\<forall>m. mean_absolute_error y_true y_pred = Inr m \<longrightarrow> 0 \<le> m)
   \<and> (length y_pred = length y_true \<and> y_true \<noteq> [] \<longrightarrow>
        (\<exists>m. mean_absolute_error y_true y_pred = Inr m))
   \<and> (\<forall>s'. evaluate_model lib s = Inr s' \<longrightarrow> 0 \<le> var_mae s')"
proof (intro conjI allI impI)
  fix m assume "mean_absolute_error y_true y_pred = Inr m"
  then show "0 \<le> m" by (rule mean_absolute_error_Inr)
next
  assume "length y_pred = length y_true \<and> y_true \<noteq> []"
  then show "\<exists>m. mean_absolute_error y_true y_pred = Inr m"
    by (simp add: mean_absolute_error_def)
next
  fix s' assume "evaluate_model lib s = Inr s'"
  then obtain p where "mean_absolute_error (var_y_test s) p = Inr (var_mae s')"
    using evaluate_model_Inr by blast
  then show "0 \<le> var_mae s'" by (rule mean_absolute_error_Inr)
qed

theorem mae_is_nonnegative_witness:
  "mean_absolute_error [40, 10] [15, 12] = Inr (27 / 2) \<and> (0::real) \<le> 27 / 2
   \<and> (\<exists>s'. evaluate_model demo_library (demo_namespace\<lparr>var_model := 15\<rparr>) = Inr s'
         \<and> var_mae s' = 25 \<and> 0 \<le> var_mae s')"
proof -
  have a: "mean_absolute_error [40, 10] [15, 12] = Inr (27 / 2)"
    by (simp add: mean_absolute_error_def)
  have b: "evaluate_model demo_library (demo_namespace\<lparr>var_model := 15\<rparr>)
      = Inr (demo_namespace\<lparr>var_model := 15, var_yhat := Inr [15], var_mae := 25,
               stdout := [MAE 25]\<rparr>)"
    by (simp add: evaluate_model_def demo_library_def demo_namespace_def then_do_def
        mean_absolute_error_def)
  show ?thesis
    using mae_is_nonnegative [of "[40, 10]" "[15, 12]" demo_library
        "demo_namespace\<lparr>var_model := 15\<rparr>"]
    by (simp add: a b)
qed

text \<open>
  C7: when a cell has loaded the dataset, \<open>data\<close> is what \<open>read_csv\<close> returned for
  the fixed URL with \<open>header=None\<close>; \<open>y\<close> is the last entry of every row and \<open>X\<close> is
  every row without it, so that appending \<open>y\<close> to \<open>X\<close> row by row gives \<open>data\<close> again,
  and \<open>X\<close> has one column fewer. The array \<open>read_csv\<close> returns is taken to be
  rectangular: every row has as many entries as the array has columns.
\<close>

theorem last_column_is_target:
  assumes "load_dataset lib s = Inr s'"
    and "\<forall>r \<in> set (rows (var_data s')). length r = ncols (var_data s')"
  shows "read_csv lib housing_url None = Inr (var_data s')
         \<and> rows (var_X s') = map butlast (rows (var_data s'))
         \<and> var_y s' = map last (rows (var_data s'))
         \<and> map2 (\<lambda>r t. r @ [t]) (rows (var_X s')) (var_y s') = rows (var_data s')
         \<and> ncols (var_X s') + 1 = ncols (var_data s')
         \<and> (\<forall>r \<in> set (rows (var_X s')). length r = ncols (var_X s'))"
proof -
  from load_dataset_Inr [OF assms(1)] obtain d where
    d: "read_csv lib housing_url None = Inr d" "0 < ncols d" and
    s': "s' = s\<lparr>var_url := housing_url, var_df := d, var_data := d,
                 var_X := all_but_last_column d, var_y := map last (rows d)\<rparr>"
    by blast
  have data: "var_data s' = d" and X: "var_X s' = all_but_last_column d"
    and y: "var_y s' = map last (rows d)"
    by (simp_all add: s')
  have rect: "\<forall>r \<in> set (rows d). length r = ncols d"
    using assms(2) by (simp add: data)
  then have ne: "\<forall>r \<in> set (rows d). r \<noteq> []"
    using d(2) by auto
  have join: "map2 (\<lambda>r t. r @ [t]) (rows (var_X s')) (var_y s') = rows d"
    using rejoin_columns [OF ne] by (simp add: X y all_but_last_column_def)
  show ?thesis
    using d rect join by (simp add: data X y all_but_last_column_def)
qed

theorem last_column_is_target_witness:
  "\<exists>s'. load_dataset demo_library demo_namespace = Inr s'
     \<and> rows (var_data s') = [[1, 2, 10], [2, 1, 20], [50, 60, 30], [3, 4, 40]]
     \<and> rows (var_X s') = [[1, 2], [2, 1], [50, 60], [3, 4]]
     \<and> var_y s' = [10, 20, 30, 40]
     \<and> ncols (var_X s') + 1 = 3"
proof -
  let ?d = "\<lparr>ncols = 3, rows = [[1, 2, 10], [2, 1, 20], [50, 60, 30], [3, 4, 40]]\<rparr>"
  let ?s = "demo_namespace\<lparr>var_url := housing_url, var_df := ?d, var_data := ?d,
              var_X := all_but_last_column ?d, var_y := [10, 20, 30, 40]\<rparr>"
  have run: "load_dataset demo_library demo_namespace = Inr ?s"
    by (simp add: load_dataset_def demo_library_def last_column_def then_do_def)
  have rect: "\<forall>r \<in> set (rows (var_data ?s)). length r = ncols (var_data ?s)"
    by simp
  show ?thesis
    using last_column_is_target [OF run rect] run by simp
qed

section \<open>What earlier runs leave behind\<close>

text \<open>
  The cells on the library with the randomised detector: the isolation forest cell run
  first finds the generator in state 0 and flags the third training row; run after the
  elliptic envelope cell it finds the generator in state 1 and flags nothing.
\<close>

lemma random_isolation_forest_first:
  "isolation_forest_cell random_library demo_namespace
     = Inr (demo_final_namespace\<lparr>numpy_rng := 1\<rparr>)"
  by (simp add: isolation_forest_cell_def outlier_cell_def load_dataset_def split_dataset_def
      print_shapes_def outlier_filter_stage_cases kept_def fit_model_def evaluate_model_def
      last_column_def all_but_last_column_def shape2_def take_mask_def ne_scalar_def
      mean_absolute_error_def then_do_def random_library_def demo_library_def
      demo_namespace_def demo_final_namespace_def)

lemma random_elliptic_envelope_first:
  "elliptic_envelope_cell random_library demo_namespace
     = Inr (demo_final_namespace
              \<lparr>var_iso := LocalOutlierFactor, var_ee := EllipticEnvelope (1 / 100),
               numpy_rng := 1\<rparr>)"
  by (simp add: elliptic_envelope_cell_def outlier_cell_def load_dataset_def split_dataset_def
      print_shapes_def outlier_filter_stage_cases kept_def fit_model_def evaluate_model_def
      last_column_def all_but_last_column_def shape2_def take_mask_def ne_scalar_def
      mean_absolute_error_def then_do_def random_library_def demo_library_def
      demo_namespace_def demo_final_namespace_def)

lemma random_isolation_forest_second:
  "map_sum id results
     (isolation_forest_cell random_library
        (demo_final_namespace
           \<lparr>var_iso := LocalOutlierFactor, var_ee := EllipticEnvelope (1 / 100),
            numpy_rng := 1\<rparr>))
     = Inr ([Shapes (3, 2) 3, Shapes (3, 2) 3, MAE 20],
            \<lparr>ncols = 2, rows = [[1, 2], [2, 1], [50, 60]]\<rparr>, [10, 20, 30],
            \<lparr>ncols = 2, rows = [[3, 4]]\<rparr>, [40], 20, 20)"
  by (simp add: isolation_forest_cell_def outlier_cell_def load_dataset_def split_dataset_def
      print_shapes_def outlier_filter_stage_cases kept_def fit_model_def evaluate_model_def
      last_column_def all_but_last_column_def shape2_def take_mask_def ne_scalar_def
      mean_absolute_error_def then_do_def random_library_def demo_library_def
      demo_final_namespace_def results_def)

text \<open>
  C8, as the spec states it: no state persists between invocations, so that what a
  pipeline prints and computes does not depend on the pipelines run before it. The
  generator does persist. With the randomised detector the isolation forest cell reports
  an error of 25 when it is run first and of 20 when the elliptic envelope cell has been
  run before it.
\<close>

theorem earlier_run_changes_isolation_forest:
  "map_sum id results (isolation_forest_cell random_library demo_namespace)
     = Inr ([Shapes (3, 2) 3, Shapes (2, 2) 2, MAE 25],
            \<lparr>ncols = 2, rows = [[1, 2], [2, 1]]\<rparr>, [10, 20],
            \<lparr>ncols = 2, rows = [[3, 4]]\<rparr>, [40], 15, 25)
   \<and> map_sum id results
       (then_do (elliptic_envelope_cell random_library demo_namespace)
          (isolation_forest_cell random_library))
     = Inr ([Shapes (3, 2) 3, Shapes (3, 2) 3, MAE 20],
            \<lparr>ncols = 2, rows = [[1, 2], [2, 1], [50, 60]]\<rparr>, [10, 20, 30],
            \<lparr>ncols = 2, rows = [[3, 4]]\<rparr>, [40], 20, 20)
   \<and> map_sum id results
       (then_do (elliptic_envelope_cell random_library demo_namespace)
          (isolation_forest_cell random_library))
     \<noteq> map_sum id results (isolation_forest_cell random_library demo_namespace)"
proof -
  have first: "map_sum id results (isolation_forest_cell random_library demo_namespace)
     = Inr ([Shapes (3, 2) 3, Shapes (2, 2) 2, MAE 25],
            \<lparr>ncols = 2, rows = [[1, 2], [2, 1]]\<rparr>, [10, 20],
            \<lparr>ncols = 2, rows = [[3, 4]]\<rparr>, [40], 15, 25)"
    by (simp add: random_isolation_forest_first results_def demo_final_namespace_def)
  have second: "map_sum id results
       (then_do (elliptic_envelope_cell random_library demo_namespace)
          (isolation_forest_cell random_library))
     = Inr ([Shapes (3, 2) 3, Shapes (3, 2) 3, MAE 20],
            \<lparr>ncols = 2, rows = [[1, 2], [2, 1], [50, 60]]\<rparr>, [10, 20, 30],
            \<lparr>ncols = 2, rows = [[3, 4]]\<rparr>, [40], 20, 20)"
    using random_isolation_forest_second
    by (simp add: random_elliptic_envelope_first then_do_def)
  show ?thesis
    unfolding first second by simp
qed

text \<open>
  A pipeline assigns every variable it reads before it reads it, so what it computes
  depends on the namespace it starts from through the state of the generator alone.
\<close>

lemma outlier_cell_independent:
  assumes "numpy_rng s = numpy_rng t"
  shows "map_sum id (assigned dv) (outlier_cell lib dv est s)
           = map_sum id (assigned dv) (outlier_cell lib dv est t)"
  using assms
  by (cases dv)
    (simp_all add: outlier_cell_def load_dataset_def split_dataset_def print_shapes_def
      outlier_filter_stage_cases kept_def fit_model_def evaluate_model_def last_column_def
      then_do_def Let_def assigned_def split: sum.splits prod.splits)

text \<open>
  C8, amended: no variable of the notebook carries anything from one pipeline run into
  the next. From any two namespaces in which numpy's process-wide generator is in the
  same state, each of the four pipelines gives the same outcome: the same exception, or
  the same value of every variable it assigns, the same printed lines and the same state
  of the generator afterwards. The state of the generator is the one thing an earlier
  run hands on.
\<close>

theorem pipelines_share_only_the_generator:
  assumes "numpy_rng s = numpy_rng t"
  shows "map_sum id (assigned Iso) (isolation_forest_cell lib s)
           = map_sum id (assigned Iso) (isolation_forest_cell lib t)
         \<and> map_sum id (assigned Ee) (elliptic_envelope_cell lib s)
           = map_sum id (assigned Ee) (elliptic_envelope_cell lib t)
         \<and> map_sum id (assigned Lof) (local_outlier_factor_cell lib s)
           = map_sum id (assigned Lof) (local_outlier_factor_cell lib t)
         \<and> map_sum id (assigned Ee) (one_class_svm_cell lib s)
           = map_sum id (assigned Ee) (one_class_svm_cell lib t)"
  unfolding isolation_forest_cell_def elliptic_envelope_cell_def
    local_outlier_factor_cell_def one_class_svm_cell_def
  by (intro conjI outlier_cell_independent assms)

theorem pipelines_share_only_the_generator_witness:
  "numpy_rng demo_final_namespace = numpy_rng demo_namespace
   \<and> map_sum id (assigned Iso) (isolation_forest_cell random_library demo_final_namespace)
     = Inr (assigned Iso (demo_final_namespace\<lparr>numpy_rng := 1\<rparr>))
   \<and> map_sum id (assigned Iso) (isolation_forest_cell random_library demo_namespace)
     = Inr (assigned Iso (demo_final_namespace\<lparr>numpy_rng := 1\<rparr>))"
proof -
  have same: "numpy_rng demo_final_namespace = numpy_rng demo_namespace"
    by (simp add: demo_final_namespace_def demo_namespace_def)
  show ?thesis
    using pipelines_share_only_the_generator [OF same, of random_library] same
    by (simp add: random_isolation_forest_first)
qed

section \<open>The test set\<close>

text \<open>
  C10: when a pipeline has run, \<open>X\<close> and \<open>y\<close> are the columns of the data
  \<open>read_csv\<close> returned, all rows of it; the split was made on them, and the test
  features and targets in the namespace are the ones that split returned. The detector's
  labels are \<open>fit_predict\<close> on the training features that split returned, with the
  generator as the cell found it; the mask, the filtered training set and the fitted
  model are computed from the training part alone. The predictions are made for the
  whole of \<open>X_test\<close> and the error is taken between them and the whole of \<open>y_test\<close>.
\<close>

theorem test_set_is_left_alone:
  assumes "outlier_cell lib dv est s = Inr s'"
  shows "\<exists>Xtr ytr labels p.
           read_csv lib housing_url None = Inr (var_data s')
         \<and> var_X s' = all_but_last_column (var_data s')
         \<and> var_y s' = map last (rows (var_data s'))
         \<and> train_test_split lib (var_X s') (var_y s') (33 / 100) 1
             = Inr (Xtr, var_X_test s', ytr, var_y_test s')
         \<and> fit_predict lib est Xtr (numpy_rng s) = Inr (labels, numpy_rng s')
         \<and> var_mask s' = ne_scalar labels (- 1)
         \<and> boolean_index_rows Xtr (var_mask s') = Inr (var_X_train s')
         \<and> boolean_index ytr (var_mask s') = Inr (var_y_train s')
         \<and> LinearRegression_fit lib (var_X_train s') (var_y_train s') = Inr (var_model s')
         \<and> predict lib (var_model s') (var_X_test s') = Inr p
         \<and> mean_absolute_error (var_y_test s') p = Inr (var_mae s')"
proof -
  from assms obtain s1 s2 s3 s4 s5 s6 where
    load: "load_dataset lib (s\<lparr>stdout := []\<rparr>) = Inr s1" and
    split: "split_dataset lib s1 = Inr s2" and
    pr1: "print_shapes s2 = Inr s3" and
    stage: "outlier_filter_stage lib dv est s3 = Inr s4" and
    pr2: "print_shapes s4 = Inr s5" and
    fit: "fit_model lib s5 = Inr s6" and
    eval: "evaluate_model lib s6 = Inr s'"
    unfolding outlier_cell_def then_do_Inr by blast
  from load_dataset_Inr [OF load] obtain d where
    csv: "read_csv lib housing_url None = Inr d" and
    s1: "s1 = s\<lparr>stdout := [], var_url := housing_url, var_df := d, var_data := d,
                 var_X := all_but_last_column d, var_y := map last (rows d)\<rparr>"
    by auto
  from split_dataset_Inr [OF split] obtain Xtr Xte ytr yte where
    tts: "train_test_split lib (var_X s1) (var_y s1) (33 / 100) 1 = Inr (Xtr, Xte, ytr, yte)" and
    s2: "s2 = s1\<lparr>var_X_train := Xtr, var_X_test := Xte, var_y_train := ytr, var_y_test := yte\<rparr>"
    by blast
  have s3: "s3 = s2\<lparr>stdout :=
              stdout s2 @ [Shapes (shape2 (var_X_train s2)) (length (var_y_train s2))]\<rparr>"
    using pr1 by (simp add: print_shapes_def)
  from outlier_filter_stage_Inr [OF stage] obtain labels g where
    fp: "fit_predict lib est (var_X_train s3) (numpy_rng s3) = Inr (labels, g)" and
    len: "labels = [] \<or> length labels = length (rows (var_X_train s3))"
      "labels = [] \<or> length labels = length (var_y_train s3)" and
    s4: "s4 = kept s3 labels g dv est"
    by blast
  have s5: "s5 = s4\<lparr>stdout :=
              stdout s4 @ [Shapes (shape2 (var_X_train s4)) (length (var_y_train s4))]\<rparr>"
    using pr2 by (simp add: print_shapes_def)
  note f = fit_model_Inr [OF fit]
  from evaluate_model_Inr [OF eval] obtain p where
    pred: "predict lib (var_model s6) (var_X_test s6) = Inr p" and
    mae: "mean_absolute_error (var_y_test s6) p = Inr (var_mae s')" and
    s': "s' = s6\<lparr>var_yhat := Inr p, var_mae := var_mae s',
                 stdout := stdout s6 @ [MAE (var_mae s')]\<rparr>"
    by blast
  have s6: "s6 = s5\<lparr>var_model := var_model s6\<rparr>"
    using f by simp
  have loaded1: "var_data s1 = d" "var_X s1 = all_but_last_column d"
      "var_y s1 = map last (rows d)" "numpy_rng s1 = numpy_rng s"
    by (simp_all add: s1)
  have train3: "var_X_train s3 = Xtr" "var_y_train s3 = ytr"
    by (simp_all add: s3 s2)
  have rng3: "numpy_rng s3 = numpy_rng s"
    by (simp add: s3 s2 loaded1)
  have rng: "numpy_rng s' = g"
    by (subst s', subst s6, simp add: s5 s4)
  have test6: "var_X_test s6 = Xte" "var_y_test s6 = yte"
    by (subst s6, simp add: s5 s4 s3 s2)+
  have test: "var_X_test s' = Xte" "var_y_test s' = yte"
    by (subst s', subst s6, simp add: s5 s4 s3 s2)+
  have Xy: "var_X s' = var_X s1" "var_y s' = var_y s1" "var_data s' = var_data s1"
    by (subst s', subst s6, simp add: s5 s4 s3 s2)+
  have mask: "var_mask s' = ne_scalar labels (- 1)"
    by (subst s', subst s6, simp add: s5 s4)
  have train5: "var_X_train s5 = var_X_train s4" "var_y_train s5 = var_y_train s4"
    by (simp_all add: s5)
  have train: "var_X_train s' = var_X_train s4" "var_y_train s' = var_y_train s4"
    by (subst s', subst s6, simp add: s5)+
  have model: "var_model s' = var_model s6"
    by (subst s', simp)
  have sel: "boolean_index_rows Xtr (ne_scalar labels (- 1)) = Inr (var_X_train s4)"
      "boolean_index ytr (ne_scalar labels (- 1)) = Inr (var_y_train s4)"
    using kept_selection [OF len, of g dv est] by (simp_all add: s4 train3)
  have "read_csv lib housing_url None = Inr (var_data s')"
    using csv by (simp add: Xy loaded1)
  moreover have "var_X s' = all_but_last_column (var_data s')"
      "var_y s' = map last (rows (var_data s'))"
    by (simp_all add: Xy loaded1)
  moreover have "train_test_split lib (var_X s') (var_y s') (33 / 100) 1
          = Inr (Xtr, var_X_test s', ytr, var_y_test s')"
    using tts by (simp add: Xy test)
  moreover have "fit_predict lib est Xtr (numpy_rng s) = Inr (labels, numpy_rng s')"
    using fp by (simp add: train3 rng3 rng)
  moreover have "LinearRegression_fit lib (var_X_train s') (var_y_train s') = Inr (var_model s')"
    using f by (simp add: train model train5)
  moreover have "predict lib (var_model s') (var_X_test s') = Inr p"
    using pred by (simp add: model test test6)
  moreover have "mean_absolute_error (var_y_test s') p = Inr (var_mae s')"
    using mae by (simp add: test test6)
  ultimately show ?thesis
    using mask sel train by auto
qed

theorem test_set_is_left_alone_witness:
  "outlier_cell demo_library Iso (IsolationForest (1 / 10)) demo_namespace
     = Inr demo_final_namespace
   \<and> var_X_test demo_final_namespace = \<lparr>ncols = 2, rows = [[3, 4]]\<rparr>
   \<and> var_y_test demo_final_namespace = [40]
   \<and> (\<exists>Xtr ytr labels p.
         read_csv demo_library housing_url None = Inr (var_data demo_final_namespace)
       \<and> var_X demo_final_namespace = all_but_last_column (var_data demo_final_namespace)
       \<and> train_test_split demo_library (var_X demo_final_namespace) (var_y demo_final_namespace)
           (33 / 100) 1
           = Inr (Xtr, var_X_test demo_final_namespace, ytr, var_y_test demo_final_namespace)
       \<and> fit_predict demo_library (IsolationForest (1 / 10)) Xtr (numpy_rng demo_namespace)
           = Inr (labels, numpy_rng demo_final_namespace)
       \<and> var_mask demo_final_namespace = ne_scalar labels (- 1)
       \<and> predict demo_library (var_model demo_final_namespace) (var_X_test demo_final_namespace)
           = Inr p
       \<and> mean_absolute_error (var_y_test demo_final_namespace) p = Inr 25)"
proof -
  have mae: "var_mae demo_final_namespace = 25"
    by (simp add: demo_final_namespace_def)
  have test: "var_X_test demo_final_namespace = \<lparr>ncols = 2, rows = [[3, 4]]\<rparr>"
      "var_y_test demo_final_namespace = [40]"
    by (simp_all add: demo_final_namespace_def)
  from test_set_is_left_alone [OF isolation_forest_cell_demo]
  have "\<exists>Xtr ytr labels p.
         read_csv demo_library housing_url None = Inr (var_data demo_final_namespace)
       \<and> var_X demo_final_namespace = all_but_last_column (var_data demo_final_namespace)
       \<and> train_test_split demo_library (var_X demo_final_namespace) (var_y demo_final_namespace)
           (33 / 100) 1
           = Inr (Xtr, var_X_test demo_final_namespace, ytr, var_y_test demo_final_namespace)
       \<and> fit_predict demo_library (IsolationForest (1 / 10)) Xtr (numpy_rng demo_namespace)
           = Inr (labels, numpy_rng demo_final_namespace)
       \<and> var_mask demo_final_namespace = ne_scalar labels (- 1)
       \<and> predict demo_library (var_model demo_final_namespace) (var_X_test demo_final_namespace)
           = Inr p
       \<and> mean_absolute_error (var_y_test demo_final_namespace) p = Inr 25"
    unfolding mae by blast
  then show ?thesis
    using isolation_forest_cell_demo test by blast
qed

end
